theory Spec2Isabelle
  imports Main "HOL-Library.Sublist" "HOL-Library.AList"
begin

section \<open>Python values\<close>

text \<open>
  A Python \<open>str\<close> is a sequence of Unicode code points. The code points are natural
  numbers here (an Isabelle \<open>char\<close> has only eight bits, and a JSON \<open>\uXXXX\<close> escape
  denotes code points beyond that). \<open>ord\<close> is Python's \<open>ord\<close> on the characters that
  the source files contain, and \<open>ustr\<close> writes a literal.
\<close>

type_synonym str = "nat list"

abbreviation ord :: "char \<Rightarrow> nat" where
  "ord \<equiv> of_char"

definition ustr :: "string \<Rightarrow> str" where
  "ustr cs = map ord cs"

text \<open>
  What \<open>json.loads\<close> returns: \<open>None\<close>, a \<open>bool\<close>, an \<open>int\<close>, a \<open>float\<close>, a \<open>str\<close>,
  a \<open>list\<close> or a \<open>dict\<close>. Floating point arithmetic is not modelled: a float is kept as the
  literal that \<open>float\<close> was applied to. A \<open>dict\<close> is the list of its items in insertion
  order, with distinct keys.
\<close>

datatype json =
    JNull
  | JBool bool
  | JInt int
  | JFloat str
  | JStr str
  | JList "json list"
  | JDict "(str \<times> json) list"

text \<open>
  The exceptions that can leave the functions below. The last four stand for what the
  Anthropic client raises when the request fails (network, authentication, rate limit,
  backend).
\<close>

datatype exn =
    JSONDecodeError
  | StopIteration
  | RecursionError
  | ValueError
  | IndexError
  | AttributeError
  | APIConnectionError
  | AuthenticationError
  | RateLimitError
  | InternalServerError

text \<open>
  The two settings of the interpreter that decide whether \<open>json.loads\<close> raises something
  other than \<open>JSONDecodeError\<close>: how many nested containers the decoder may still enter
  before the recursion limit is hit, and \<open>sys.get_int_max_str_digits()\<close> (\<open>0\<close> switches the
  limit off, as in Python).
\<close>

record pyenv =
  recursion_limit :: nat
  int_max_str_digits :: nat

section \<open>The JSON decoder behind \<open>json.loads\<close>\<close>

text \<open>
  \<open>analyze_resume_ats\<close> calls \<open>json.loads\<close> of the standard library, whose behaviour the
  claims depend on. The definitions of this section follow CPython's \<open>json/decoder.py\<close> and
  \<open>json/scanner.py\<close> with the default decoder (\<open>strict=True\<close>, no hooks), reading digits and
  hexadecimal digits as the C accelerator \<open>_json\<close> does (ASCII only). Error messages and
  error positions are not modelled, only the class of the exception.

  Python passes the text and an index \<open>end\<close> into it. Here a function takes the text from
  that index on and returns, with its value, the number of code points it consumed.
\<close>

type_synonym 'a scan = "exn + 'a \<times> nat"

definition is_ws :: "nat \<Rightarrow> bool" where
  \<comment> \<open>\<open>WHITESPACE_STR = ' \t\n\r'\<close>\<close>
  "is_ws c = (c = 32 \<or> c = 9 \<or> c = 10 \<or> c = 13)"

definition w_end :: "str \<Rightarrow> nat" where
  \<comment> \<open>\<open>WHITESPACE.match(s, idx).end() - idx\<close>\<close>
  "w_end s = length (takeWhile is_ws s)"

definition is_digit :: "nat \<Rightarrow> bool" where
  "is_digit c = (48 \<le> c \<and> c \<le> 57)"

definition hex_digit :: "nat \<Rightarrow> nat option" where
  "hex_digit c =
     (if 48 \<le> c \<and> c \<le> 57 then Some (c - 48)
      else if 97 \<le> c \<and> c \<le> 102 then Some (c - 87)
      else if 65 \<le> c \<and> c \<le> 70 then Some (c - 55)
      else None)"

definition decode_uXXXX :: "str \<Rightarrow> nat option" where
  \<comment> \<open>the value of the four hexadecimal digits at the head of \<open>s\<close>;
      \<open>None\<close> is \<open>JSONDecodeError("Invalid \\uXXXX escape")\<close>\<close>
  "decode_uXXXX s =
     (case map hex_digit (take 4 s) of
        [Some a, Some b, Some c, Some d] \<Rightarrow> Some (((a * 16 + b) * 16 + c) * 16 + d)
      | _ \<Rightarrow> None)"

definition BACKSLASH :: "nat \<Rightarrow> nat option" where
  \<comment> \<open>the table of the one-letter escapes\<close>
  \<open>BACKSLASH esc =
     (if esc = ord CHR ''"'' then Some (ord CHR ''"'')
      else if esc = 92 then Some 92
      else if esc = ord CHR ''/'' then Some (ord CHR ''/'')
      else if esc = ord CHR ''b'' then Some 8
      else if esc = ord CHR ''f'' then Some 12
      else if esc = ord CHR ''n'' then Some 10
      else if esc = ord CHR ''r'' then Some 13
      else if esc = ord CHR ''t'' then Some 9
      else None)\<close>

definition append_char :: "nat \<Rightarrow> nat \<Rightarrow> str scan \<Rightarrow> str scan" where
  \<comment> \<open>\<open>_append(char)\<close> after \<open>k\<close> code points of input, in front of the rest of the scan\<close>
  "append_char char k r =
     (case r of Inl e \<Rightarrow> Inl e | Inr (chunks, n) \<Rightarrow> Inr (char # chunks, k + n))"

text \<open>
  \<open>scanstring\<close> gets the text after the opening quote. It returns the decoded string and
  the number of code points up to and including the closing quote. Code point 92 is the
  backslash.
\<close>

fun scanstring :: "str \<Rightarrow> str scan" where
  "scanstring [] = Inl JSONDecodeError"
| \<open>scanstring (c # s) =
     (if c = ord CHR ''"'' then Inr ([], 1)
      else if c = 92 then
        (case s of
           [] \<Rightarrow> Inl JSONDecodeError
         | esc # s1 \<Rightarrow>
             if esc \<noteq> ord CHR ''u'' then
               (case BACKSLASH esc of
                  None \<Rightarrow> Inl JSONDecodeError
                | Some char \<Rightarrow> append_char char 2 (scanstring s1))
             else
               (case decode_uXXXX s1 of
                  None \<Rightarrow> Inl JSONDecodeError
                | Some uni \<Rightarrow>
                    if 0xd800 \<le> uni \<and> uni \<le> 0xdbff \<and> take 2 (drop 4 s1) = [92, ord CHR ''u''] then
                      (case decode_uXXXX (drop 6 s1) of
                         None \<Rightarrow> Inl JSONDecodeError
                       | Some uni2 \<Rightarrow>
                           if 0xdc00 \<le> uni2 \<and> uni2 \<le> 0xdfff then
                             append_char (0x10000 + ((uni - 0xd800) * 1024 + (uni2 - 0xdc00))) 12
                               (scanstring (drop 10 s1))
                           else append_char uni 6 (scanstring (drop 4 s1)))
                    else append_char uni 6 (scanstring (drop 4 s1))))
      else if c \<le> 0x1f then Inl JSONDecodeError
      else append_char c 1 (scanstring s))\<close>

text \<open>
  \<open>NUMBER_RE = (-?(?:0|[1-9]\d*))(\.\d+)?([eE][-+]?\d+)?\<close>: the three groups of the
  match at the head of the text, an absent group being the empty string.
\<close>

definition match_integer :: "str \<Rightarrow> str option" where
  "match_integer s =
     (let sign = (if take 1 s = ustr ''-'' then ustr ''-'' else []);
          t = drop (length sign) s
      in case t of
           [] \<Rightarrow> None
         | c # r \<Rightarrow>
             if c = ord CHR ''0'' then Some (sign @ [c])
             else if is_digit c then Some (sign @ c # takeWhile is_digit r)
             else None)"

definition match_frac :: "str \<Rightarrow> str" where
  "match_frac t =
     (case t of
        c # d # r \<Rightarrow>
          if c = ord CHR ''.'' \<and> is_digit d then c # d # takeWhile is_digit r else []
      | _ \<Rightarrow> [])"

definition match_exp :: "str \<Rightarrow> str" where
  "match_exp t =
     (case t of
        [] \<Rightarrow> []
      | e # r \<Rightarrow>
          if e = ord CHR ''e'' \<or> e = ord CHR ''E'' then
            (let sign = (if take 1 r = ustr ''-'' \<or> take 1 r = ustr ''+'' then take 1 r else []);
                 digits = takeWhile is_digit (drop (length sign) r)
             in if digits = [] then [] else e # sign @ digits)
          else [])"

definition match_number :: "str \<Rightarrow> (str \<times> str \<times> str) option" where
  "match_number s =
     (case match_integer s of
        None \<Rightarrow> None
      | Some integer \<Rightarrow>
          (let frac = match_frac (drop (length integer) s);
               exp = match_exp (drop (length integer + length frac) s)
           in Some (integer, frac, exp)))"

definition truthy :: "str \<Rightarrow> bool" where
  \<comment> \<open>a \<open>str\<close> in a condition: true unless empty\<close>
  "truthy s = (s \<noteq> [])"

definition int_of_digits :: "str \<Rightarrow> int" where
  "int_of_digits ds = foldl (\<lambda>a d. 10 * a + (int d - 48)) 0 ds"

definition parse_int :: "pyenv \<Rightarrow> str \<Rightarrow> exn + json" where
  \<comment> \<open>\<open>int(integer)\<close>: more digits than \<open>int_max_str_digits\<close> raise \<open>ValueError\<close>\<close>
  "parse_int env integer =
     (let neg = (take 1 integer = ustr ''-'');
          digits = (if neg then drop 1 integer else integer)
      in if 0 < int_max_str_digits env \<and> int_max_str_digits env < length digits
         then Inl ValueError
         else Inr (JInt (if neg then - int_of_digits digits else int_of_digits digits)))"

text \<open>
  The body of \<open>_scan_once\<close>, in the order of its branches. \<open>parse_object\<close> and
  \<open>parse_array\<close> get the text after the bracket.
\<close>

definition advance :: "nat \<Rightarrow> 'a scan \<Rightarrow> 'a scan" where
  \<comment> \<open>a result counted from \<open>idx + k\<close>, counted from \<open>idx\<close>\<close>
  "advance k r = (case r of Inl e \<Rightarrow> Inl e | Inr (v, n) \<Rightarrow> Inr (v, k + n))"

definition scan_once_body ::
  "pyenv \<Rightarrow> (str \<Rightarrow> json scan) \<Rightarrow> (str \<Rightarrow> json scan) \<Rightarrow> str \<Rightarrow> json scan" where
  \<open>scan_once_body env parse_object parse_array string =
     (case string of
        [] \<Rightarrow> Inl StopIteration
      | nextchar # rest \<Rightarrow>
          if nextchar = ord CHR ''"'' then
            (case scanstring rest of
               Inl e \<Rightarrow> Inl e
             | Inr (s, n) \<Rightarrow> Inr (JStr s, 1 + n))
          else if nextchar = ord CHR ''{'' then advance 1 (parse_object rest)
          else if nextchar = ord CHR ''['' then advance 1 (parse_array rest)
          else if nextchar = ord CHR ''n'' \<and> take 4 string = ustr ''null'' then Inr (JNull, 4)
          else if nextchar = ord CHR ''t'' \<and> take 4 string = ustr ''true'' then Inr (JBool True, 4)
          else if nextchar = ord CHR ''f'' \<and> take 5 string = ustr ''false'' then Inr (JBool False, 5)
          else
            (case match_number string of
               Some (integer, frac, exp) \<Rightarrow>
                 if truthy frac \<or> truthy exp then
                   Inr (JFloat (integer @ frac @ exp), length integer + length frac + length exp)
                 else
                   (case parse_int env integer of
                      Inl e \<Rightarrow> Inl e
                    | Inr res \<Rightarrow> Inr (res, length integer))
             | None \<Rightarrow>
                 if nextchar = ord CHR ''N'' \<and> take 3 string = ustr ''NaN'' then
                   Inr (JFloat (ustr ''NaN''), 3)
                 else if nextchar = ord CHR ''I'' \<and> take 8 string = ustr ''Infinity'' then
                   Inr (JFloat (ustr ''Infinity''), 8)
                 else if nextchar = ord CHR ''-'' \<and> take 9 string = ustr ''-Infinity'' then
                   Inr (JFloat (ustr ''-Infinity''), 9)
                 else Inl StopIteration))\<close>

text \<open>
  \<open>JSONArray\<close> and \<open>JSONObject\<close> get the text after the opening bracket and the scanner
  for the values, as in Python. The loops return the values read (in reading order) and
  the number of code points up to and including the closing bracket.
\<close>

function JSONArray_loop :: "(str \<Rightarrow> json scan) \<Rightarrow> str \<Rightarrow> json list scan" where
  "JSONArray_loop scan_once s =
     (case scan_once s of
        Inl e \<Rightarrow> Inl (if e = StopIteration then JSONDecodeError else e)
      | Inr (value, n) \<Rightarrow>
          (let end = n + w_end (drop n s);
               nextchar = take 1 (drop end s);
               end = end + 1
           in if nextchar = ustr '']'' then Inr ([value], end)
              else if nextchar \<noteq> ustr '','' then Inl JSONDecodeError
              else
                (let end = end + w_end (drop end s)
                 in case JSONArray_loop scan_once (drop end s) of
                      Inl e \<Rightarrow> Inl e
                    | Inr (values, k) \<Rightarrow> Inr (value # values, end + k))))"
  by pat_completeness auto
termination
  by (relation "measure (\<lambda>(scan_once, s). length s)")
    (auto simp: ustr_def take_Suc split: list.splits dest!: arg_cong [where f = length])

definition JSONArray :: "(str \<Rightarrow> json scan) \<Rightarrow> str \<Rightarrow> json scan" where
  "JSONArray scan_once s =
     (let end = w_end s;
          nextchar = take 1 (drop end s)
      in if nextchar = ustr '']'' then Inr (JList [], end + 1)
         else
           (case JSONArray_loop scan_once (drop end s) of
              Inl e \<Rightarrow> Inl e
            | Inr (values, k) \<Rightarrow> Inr (JList values, end + k)))"

text \<open>
  The loop of \<open>JSONObject\<close> starts after the opening quote of a key. \<open>dict(pairs)\<close> keeps
  the first position of a repeated key and its last value.
\<close>

function JSONObject_loop :: "(str \<Rightarrow> json scan) \<Rightarrow> str \<Rightarrow> (str \<times> json) list scan" where
  \<open>JSONObject_loop scan_once s =
     (case scanstring s of
        Inl e \<Rightarrow> Inl e
      | Inr (key, n) \<Rightarrow>
          (let end = n + w_end (drop n s)
           in if take 1 (drop end s) \<noteq> ustr '':'' then Inl JSONDecodeError
              else
                (let end = end + 1;
                     end = end + w_end (drop end s)
                 in case scan_once (drop end s) of
                      Inl e \<Rightarrow> Inl (if e = StopIteration then JSONDecodeError else e)
                    | Inr (value, m) \<Rightarrow>
                        (let end = end + m;
                             end = end + w_end (drop end s);
                             nextchar = take 1 (drop end s);
                             end = end + 1
                         in if nextchar = ustr ''}'' then Inr ([(key, value)], end)
                            else if nextchar \<noteq> ustr '','' then Inl JSONDecodeError
                            else
                              (let end = end + w_end (drop end s);
                                   nextchar = take 1 (drop end s);
                                   end = end + 1
                               in if nextchar \<noteq> ustr ''"'' then Inl JSONDecodeError
                                  else
                                    (case JSONObject_loop scan_once (drop end s) of
                                       Inl e \<Rightarrow> Inl e
                                     | Inr (pairs, k) \<Rightarrow> Inr ((key, value) # pairs, end + k)))))))\<close>
  by pat_completeness auto
termination
  by (relation "measure (\<lambda>(scan_once, s). length s)")
    (auto simp: ustr_def take_Suc split: list.splits dest!: arg_cong [where f = length])

definition dict :: "(str \<times> json) list \<Rightarrow> (str \<times> json) list" where
  "dict pairs = foldl (\<lambda>d (key, value). AList.update key value d) [] pairs"

definition JSONObject :: "(str \<Rightarrow> json scan) \<Rightarrow> str \<Rightarrow> json scan" where
  \<open>JSONObject scan_once s =
     (let end = w_end s;
          nextchar = take 1 (drop end s)
      in if nextchar = ustr ''}'' then Inr (JDict [], end + 1)
         else if nextchar \<noteq> ustr ''"'' then Inl JSONDecodeError
         else
           (case JSONObject_loop scan_once (drop (end + 1) s) of
              Inl e \<Rightarrow> Inl e
            | Inr (pairs, k) \<Rightarrow> Inr (JDict (dict pairs), end + 1 + k)))\<close>

text \<open>
  \<open>scan_once\<close>: the first argument is the number of nested containers that can still be
  entered. Entering one more raises \<open>RecursionError\<close> (the decoder calls itself for every
  nested array and object).
\<close>

primrec scan_once :: "pyenv \<Rightarrow> nat \<Rightarrow> str \<Rightarrow> json scan" where
  "scan_once env 0 string =
     scan_once_body env (\<lambda>s. Inl RecursionError) (\<lambda>s. Inl RecursionError) string"
| "scan_once env (Suc depth) string =
     scan_once_body env (JSONObject (scan_once env depth)) (JSONArray (scan_once env depth)) string"

definition raw_decode :: "pyenv \<Rightarrow> str \<Rightarrow> json scan" where
  "raw_decode env s =
     (case scan_once env (recursion_limit env) s of
        Inl e \<Rightarrow> Inl (if e = StopIteration then JSONDecodeError else e)
      | Inr (obj, n) \<Rightarrow> Inr (obj, n))"

definition decode :: "pyenv \<Rightarrow> str \<Rightarrow> exn + json" where
  "decode env s =
     (let idx = w_end s
      in case raw_decode env (drop idx s) of
           Inl e \<Rightarrow> Inl e
         | Inr (obj, n) \<Rightarrow>
             (let end = idx + n;
                  end = end + w_end (drop end s)
              in if end \<noteq> length s then Inl JSONDecodeError else Inr obj))"

definition json_loads :: "pyenv \<Rightarrow> str \<Rightarrow> exn + json" where
  \<comment> \<open>\<open>json.loads(s)\<close> for a \<open>str\<close>: a leading byte order mark is refused\<close>
  "json_loads env s =
     (if take 1 s = [0xfeff] then Inl JSONDecodeError else decode env s)"

section \<open>The Anthropic client\<close>

text \<open>
  \<open>client.messages.create(model=..., max_tokens=..., messages=[...])\<close> takes the three
  keyword arguments of a \<open>request\<close>; each element of \<open>messages\<close> is a dictionary with the
  keys \<open>role\<close> and \<open>content\<close>. The call returns a message, whose \<open>content\<close> is a list
  of blocks, or raises. A text block has the attribute \<open>text\<close>, a tool use block has not.

  The client is a parameter of the two functions (a module-level global in the source). It
  works on a state \<open>'w\<close> of its own: the network, the backend, the account.
\<close>

record request =
  model :: str
  max_tokens :: int
  messages :: "(str \<times> str) list list"

datatype block = TextBlock str | ToolUseBlock

record message =
  content :: "block list"

type_synonym 'w client = "request \<Rightarrow> 'w \<Rightarrow> (exn + message) \<times> 'w"

text \<open>
  Two clients for stating properties. \<open>replying r\<close> answers every request with \<open>r\<close>.
  \<open>recording client\<close> behaves as \<open>client\<close> and keeps the requests it was called with, in
  the order of the calls.
\<close>

definition replying :: "exn + message \<Rightarrow> 'w client" where
  "replying r req w = (r, w)"

definition recording :: "'w client \<Rightarrow> ('w \<times> request list) client" where
  "recording client req st =
     (case client req (fst st) of (r, w') \<Rightarrow> (r, (w', snd st @ [req])))"

section \<open>\<open>backend/app/ats_service.py\<close>\<close>

text \<open>The f-string of \<open>analyze_resume_ats\<close> (lines 23 to 44).\<close>

definition scoring_prompt :: "str \<Rightarrow> str \<Rightarrow> str" where
  \<open>scoring_prompt resume_text job_description =
       ustr ''You are an expert ATS (Applicant Tracking System) analyzer and career coach.\<newline>'' @
       ustr ''\<newline>'' @
       ustr ''Analyze this resume against the job description and provide:\<newline>'' @
       ustr ''1. An ATS compatibility score from 0-100\<newline>'' @
       ustr ''2. Keywords from the job description that are MISSING from the resume\<newline>'' @
       ustr ''3. Specific suggestions to improve the resume for this role\<newline>'' @
       ustr ''4. A brief summary of the analysis\<newline>'' @
       ustr ''\<newline>'' @
       ustr ''RESUME:\<newline>'' @
       resume_text @
       ustr ''\<newline>'' @
       ustr ''\<newline>'' @
       ustr ''JOB DESCRIPTION:\<newline>'' @
       job_description @
       ustr ''\<newline>'' @
       ustr ''\<newline>'' @
       ustr ''Respond in this exact JSON format (no markdown, just pure JSON):\<newline>'' @
       ustr ''{\<newline>'' @
       ustr ''    "score": <number 0-100>,\<newline>'' @
       ustr ''    "missing_keywords": ["keyword1", "keyword2", ...],\<newline>'' @
       ustr ''    "suggestions": ["suggestion1", "suggestion2", ...],\<newline>'' @
       ustr ''    "summary": "Brief 2-3 sentence summary of the analysis"\<newline>'' @
       ustr ''}\<newline>''\<close>

text \<open>
  \<open>analyze_resume_ats(resume_text, job_description)\<close>. The call of the client and
  \<open>message.content[0].text\<close> are outside the \<open>try\<close> statement; \<open>except\<close> names
  \<open>json.JSONDecodeError\<close> only.
\<close>

definition analyze_resume_ats ::
  "pyenv \<Rightarrow> 'w client \<Rightarrow> str \<Rightarrow> str \<Rightarrow> 'w \<Rightarrow> (exn + json) \<times> 'w" where
  "analyze_resume_ats env client resume_text job_description w =
     (let prompt = scoring_prompt resume_text job_description
      in case client
             \<lparr>model = ustr ''claude-sonnet-4-20250514'',
              max_tokens = 1024,
              messages = [ [(ustr ''role'', ustr ''user''), (ustr ''content'', prompt)] ]\<rparr> w of
           (Inl e, w') \<Rightarrow> (Inl e, w')
         | (Inr message, w') \<Rightarrow>
             (case content message of
                [] \<Rightarrow> (Inl IndexError, w')
              | ToolUseBlock # _ \<Rightarrow> (Inl AttributeError, w')
              | TextBlock response_text # _ \<Rightarrow>
                  (case json_loads env response_text of
                     Inr result \<Rightarrow> (Inr result, w')
                   | Inl e \<Rightarrow>
                       if e = JSONDecodeError then
                         (Inr (JDict
                            [(ustr ''score'', JInt 0),
                             (ustr ''missing_keywords'', JList []),
                             (ustr ''suggestions'',
                                JList [JStr (ustr ''Could not analyze - please try again'')]),
                             (ustr ''summary'', JStr response_text)]), w')
                       else (Inl e, w'))))"

text \<open>The f-string of \<open>generate_cover_letter\<close> (lines 92 to 110).\<close>

definition cover_letter_prompt :: "str \<Rightarrow> str \<Rightarrow> str \<Rightarrow> str \<Rightarrow> str" where
  \<open>cover_letter_prompt resume_text job_description company_name tone =
       ustr ''You are an expert career coach and professional writer.\<newline>'' @
       ustr ''\<newline>'' @
       ustr ''Write a compelling cover letter for this candidate applying to '' @
       company_name @
       ustr ''.\<newline>'' @
       ustr ''\<newline>'' @
       ustr ''RESUME:\<newline>'' @
       resume_text @
       ustr ''\<newline>'' @
       ustr ''\<newline>'' @
       ustr ''JOB DESCRIPTION:\<newline>'' @
       job_description @
       ustr ''\<newline>'' @
       ustr ''\<newline>'' @
       ustr ''INSTRUCTIONS:\<newline>'' @
       ustr ''- Tone: '' @
       tone @
       ustr ''\<newline>'' @
       ustr ''- Length: 3-4 paragraphs\<newline>'' @
       ustr ''- Highlight relevant experience from the resume\<newline>'' @
       ustr ''- Show enthusiasm for the specific role and company\<newline>'' @
       ustr ''- Include a strong opening and call to action\<newline>'' @
       ustr ''- Do NOT use placeholder text like [Your Name] - write it as a complete letter\<newline>'' @
       ustr ''\<newline>'' @
       ustr ''Write the cover letter now:''\<close>

text \<open>
  \<open>generate_cover_letter(resume_text, job_description, company_name, tone="professional")\<close>:
  the last argument is \<open>None\<close> when the caller leaves \<open>tone\<close> out.
\<close>

definition generate_cover_letter ::
  "'w client \<Rightarrow> str \<Rightarrow> str \<Rightarrow> str \<Rightarrow> str option \<Rightarrow> 'w \<Rightarrow> (exn + str) \<times> 'w" where
  "generate_cover_letter client resume_text job_description company_name tone_arg w =
     (let tone = (case tone_arg of None \<Rightarrow> ustr ''professional'' | Some tone \<Rightarrow> tone);
          prompt = cover_letter_prompt resume_text job_description company_name tone
      in case client
             \<lparr>model = ustr ''claude-sonnet-4-20250514'',
              max_tokens = 1500,
              messages = [ [(ustr ''role'', ustr ''user''), (ustr ''content'', prompt)] ]\<rparr> w of
           (Inl e, w') \<Rightarrow> (Inl e, w')
         | (Inr message, w') \<Rightarrow>
             (case content message of
                [] \<Rightarrow> (Inl IndexError, w')
              | ToolUseBlock # _ \<Rightarrow> (Inl AttributeError, w')
              | TextBlock text # _ \<Rightarrow> (Inr text, w')))"

section \<open>Notions used by the statements\<close>

text \<open>
  A fully populated score report: a dictionary that has the four keys \<open>score\<close>,
  \<open>missing_keywords\<close>, \<open>suggestions\<close> and \<open>summary\<close> (the docstring of
  \<open>analyze_resume_ats\<close>: "dict with score, missing_keywords, suggestions, and summary").
\<close>

definition fully_populated :: "json \<Rightarrow> bool" where
  "fully_populated result =
     (case result of
        JDict d \<Rightarrow>
          list_all (\<lambda>key. key \<in> set (map fst d))
            [ustr ''score'', ustr ''missing_keywords'', ustr ''suggestions'', ustr ''summary'']
      | _ \<Rightarrow> False)"

text \<open>The keyword arguments of the two calls of \<open>client.messages.create\<close>.\<close>

abbreviation scoring_request :: "str \<Rightarrow> str \<Rightarrow> request" where
  "scoring_request resume_text job_description \<equiv>
     \<lparr>model = ustr ''claude-sonnet-4-20250514'',
      max_tokens = 1024,
      messages = [ [(ustr ''role'', ustr ''user''),
                   (ustr ''content'', scoring_prompt resume_text job_description)] ]\<rparr>"

abbreviation letter_request :: "str \<Rightarrow> str \<Rightarrow> str \<Rightarrow> str \<Rightarrow> request" where
  "letter_request resume_text job_description company_name tone \<equiv>
     \<lparr>model = ustr ''claude-sonnet-4-20250514'',
      max_tokens = 1500,
      messages = [ [(ustr ''role'', ustr ''user''),
                   (ustr ''content'',
                    cover_letter_prompt resume_text job_description company_name tone)] ]\<rparr>"

text \<open>
  The interpreter settings of the examples. What \<open>sys.getrecursionlimit()\<close> (1000 by
  default) leaves to the decoder depends on how deep the call of \<open>analyze_resume_ats\<close>
  is: 900 nested containers stand for a call about a hundred frames deep, as in a request
  handler. 4300 is the default of \<open>sys.get_int_max_str_digits()\<close>.
\<close>

abbreviation settings :: pyenv where
  "settings \<equiv> \<lparr>recursion_limit = 900, int_max_str_digits = 4300\<rparr>"

text \<open>The list that is empty at nesting depth \<open>n + 1\<close>: \<open>[]\<close>, \<open>[ [] ]\<close>, and so on.\<close>

fun nested_list :: "nat \<Rightarrow> json" where
  "nested_list 0 = JList []"
| "nested_list (Suc n) = JList [nested_list n]"

section \<open>Texts on which the decoder raises, and nested lists\<close>

declare JSONArray_loop.simps [simp del] JSONObject_loop.simps [simp del]

lemma scan_once_unfold:
  "scan_once env depth string =
     scan_once_body env
       (if depth = 0 then (\<lambda>s. Inl RecursionError) else JSONObject (scan_once env (depth - 1)))
       (if depth = 0 then (\<lambda>s. Inl RecursionError) else JSONArray (scan_once env (depth - 1))) string"
  by (cases depth) simp_all

lemma scan_once_too_deep:
  "scan_once env d (replicate (Suc d) (ord CHR ''['') @ t) = Inl RecursionError"
proof (induction d)
  case 0
  show ?case by (simp add: scan_once_body_def advance_def)
next
  case (Suc d)
  have "JSONArray (scan_once env d) (replicate (Suc d) (ord CHR ''['') @ t) = Inl RecursionError"
    using Suc.IH
    by (simp add: JSONArray_def w_end_def is_ws_def ustr_def Let_def JSONArray_loop.simps)
  then show ?case
    by (simp add: scan_once_body_def advance_def)
qed

lemma scan_once_deeper:
  assumes "d < n"
  shows "scan_once env d (replicate n (ord CHR ''['') @ t) = Inl RecursionError"
proof -
  from assms obtain k where n: "n = Suc d + k"
    by (auto dest: less_imp_Suc_add)
  have "replicate n (ord CHR ''['') =
      replicate (Suc d) (ord CHR ''['') @ replicate k (ord CHR ''['')"
    unfolding n by (rule replicate_add)
  then have "scan_once env d (replicate n (ord CHR ''['') @ t) =
      scan_once env d (replicate (Suc d) (ord CHR ''['') @ (replicate k (ord CHR ''['') @ t))"
    by (simp only: append_assoc)
  also have "\<dots> = Inl RecursionError"
    by (rule scan_once_too_deep)
  finally show ?thesis .
qed

lemma json_loads_deeper:
  assumes "recursion_limit env < n"
  shows "json_loads env (replicate n (ord CHR ''['') @ t) = Inl RecursionError"
proof -
  from assms obtain m where n: "n = Suc m" by (cases n) auto
  show ?thesis
    using scan_once_deeper [OF assms, of env t]
    by (simp add: n json_loads_def decode_def raw_decode_def w_end_def is_ws_def Let_def)
qed

lemma scan_once_brackets:
  "\<exists>e. scan_once env d (replicate (Suc n) (ord CHR ''['')) = Inl e"
proof (induction d arbitrary: n)
  case 0
  show ?case by (simp add: scan_once_body_def advance_def)
next
  case (Suc d)
  have "\<exists>e. JSONArray (scan_once env d) (replicate n (ord CHR ''['')) = Inl e"
  proof (cases n)
    case 0
    then show ?thesis
      by (simp add: JSONArray_def w_end_def ustr_def Let_def JSONArray_loop.simps
            scan_once_unfold [of env d "[]"] scan_once_body_def)
  next
    case (Suc m)
    from Suc.IH [of m] obtain e where "scan_once env d (replicate (Suc m) (ord CHR ''['')) = Inl e"
      by blast
    with Suc show ?thesis
      by (simp add: JSONArray_def w_end_def is_ws_def ustr_def Let_def JSONArray_loop.simps)
  qed
  then show ?case
    by (auto simp: scan_once_body_def advance_def)
qed

lemma json_loads_brackets:
  "json_loads env (replicate (Suc n) (ord CHR ''['')) \<noteq> Inr result"
proof -
  from scan_once_brackets [of env "recursion_limit env" n]
  obtain e where "scan_once env (recursion_limit env) (replicate (Suc n) (ord CHR ''['')) = Inl e"
    by blast
  then show ?thesis
    by (simp add: json_loads_def decode_def raw_decode_def w_end_def is_ws_def Let_def)
qed

lemma JSONArray_single:
  assumes "p s = Inr (v, k)" and "drop k s = 93 # t" and "takeWhile is_ws s = []"
    and "take 1 s \<noteq> [93]"
  shows "JSONArray p s = Inr (JList [v], k + 1)"
proof -
  have "JSONArray_loop p s = Inr ([v], k + 1)"
    using assms(1,2) by (subst JSONArray_loop.simps) (simp add: w_end_def is_ws_def ustr_def Let_def)
  then show ?thesis
    using assms(3,4) by (simp add: JSONArray_def w_end_def ustr_def Let_def)
qed

lemma scan_once_nested_aux:
  "n < d \<Longrightarrow>
   scan_once env d (replicate (Suc n) 91 @ replicate (Suc n) 93 @ t) =
     Inr (nested_list n, 2 * Suc n)"
proof (induction n arbitrary: d t)
  case 0
  then obtain d' where d: "d = Suc d'" by (cases d) auto
  show ?case
    unfolding d
    by (simp add: scan_once_body_def advance_def JSONArray_def w_end_def is_ws_def ustr_def)
next
  case (Suc n)
  then obtain d' where d: "d = Suc d'" and n: "n < d'" by (cases d) auto
  let ?s = "replicate (Suc n) 91 @ replicate (Suc n) 93 @ 93 # t"
  have s: "replicate (Suc (Suc n)) 91 @ replicate (Suc (Suc n)) 93 @ t = 91 # ?s"
    by (simp add: replicate_append_same)
  have p: "scan_once env d' ?s = Inr (nested_list n, 2 * Suc n)"
    by (rule Suc.IH [OF n])
  have "JSONArray (scan_once env d') ?s = Inr (JList [nested_list n], 2 * Suc n + 1)"
    using p
    by (intro JSONArray_single [where p = "scan_once env d'" and s = ?s and t = t])
       (simp_all add: is_ws_def)
  then show ?case
    unfolding d s by (simp add: scan_once_body_def advance_def del: replicate.simps)
qed

lemma scan_once_nested:
  "n < d \<Longrightarrow>
   scan_once env d (replicate (Suc n) (ord CHR ''['') @ replicate (Suc n) (ord CHR '']'') @ t) =
     Inr (nested_list n, 2 * Suc n)"
  using scan_once_nested_aux [of n d env t] by simp

lemma json_loads_nested:
  assumes "n < recursion_limit env"
  shows "json_loads env (replicate (Suc n) (ord CHR ''['') @ replicate (Suc n) (ord CHR '']'')) =
           Inr (nested_list n)"
  using scan_once_nested [OF assms, of env "[]"]
  by (simp add: json_loads_def decode_def raw_decode_def w_end_def is_ws_def Let_def)

lemma json_loads_long_integer:
  assumes "0 < int_max_str_digits env" "int_max_str_digits env < Suc m"
  shows "json_loads env (replicate (Suc m) (ord CHR ''1'')) = Inl ValueError"
proof -
  let ?s = "49 # replicate m (49::nat)"
  have mi: "match_integer ?s = Some ?s"
    by (simp add: match_integer_def ustr_def is_digit_def Let_def takeWhile_replicate)
  have mn: "match_number ?s = Some (?s, [], [])"
    by (simp add: match_number_def mi match_frac_def match_exp_def Let_def)
  have pi: "parse_int env ?s = Inl ValueError"
    using assms by (simp add: parse_int_def ustr_def Let_def)
  have "scan_once env (recursion_limit env) ?s = Inl ValueError"
    by (subst scan_once_unfold) (simp add: scan_once_body_def mn pi truthy_def ustr_def)
  then show ?thesis
    by (simp add: json_loads_def decode_def raw_decode_def w_end_def is_ws_def Let_def)
qed

text \<open>The equations that evaluate the decoder on a given text.\<close>

lemmas decoder_eval =
  json_loads_def decode_def raw_decode_def scan_once_unfold scan_once_body_def
  JSONArray_def JSONObject_def JSONArray_loop.simps JSONObject_loop.simps
  w_end_def is_ws_def ustr_def advance_def match_number_def match_integer_def
  match_frac_def match_exp_def is_digit_def truthy_def parse_int_def int_of_digits_def dict_def
  append_char_def BACKSLASH_def decode_uXXXX_def hex_digit_def Let_def

section \<open>The requests sent to the client\<close>

lemma analyze_resume_ats_requests:
  "snd (snd (analyze_resume_ats env (recording client) resume_text job_description (w, log))) =
     log @ [scoring_request resume_text job_description]"
  by (cases "client (scoring_request resume_text job_description) w")
     (auto simp: analyze_resume_ats_def recording_def Let_def
           split: sum.splits list.splits block.splits)

lemma generate_cover_letter_requests:
  "snd (snd (generate_cover_letter (recording client) resume_text job_description company_name
               tone_arg (w, log))) =
     log @ [letter_request resume_text job_description company_name
              (case tone_arg of None \<Rightarrow> ustr ''professional'' | Some tone \<Rightarrow> tone)]"
  by (cases "client (letter_request resume_text job_description company_name
               (case tone_arg of None \<Rightarrow> ustr ''professional'' | Some tone \<Rightarrow> tone)) w")
     (auto simp: generate_cover_letter_def recording_def Let_def
           split: sum.splits list.splits block.splits)

lemma analyze_resume_ats_state:
  "snd (analyze_resume_ats env client resume_text job_description w) =
     snd (client (scoring_request resume_text job_description) w)"
  by (cases "client (scoring_request resume_text job_description) w")
     (auto simp: analyze_resume_ats_def Let_def split: sum.splits list.splits block.splits)

section \<open>The cover letter prompt contains its arguments\<close>

lemma sublist_skip: "sublist xs ys \<Longrightarrow> sublist xs (ps @ ys)"
  by (rule sublist_order.order_trans [OF _ sublist_append_leftI])

lemma cover_letter_prompt_company:
  "sublist company_name (cover_letter_prompt resume_text job_description company_name tone)"
  unfolding cover_letter_prompt_def
  by (intro sublist_append_rightI sublist_skip)

lemma cover_letter_prompt_tone:
  "sublist tone (cover_letter_prompt resume_text job_description company_name tone)"
  unfolding cover_letter_prompt_def
  by (intro sublist_append_rightI sublist_skip)

section \<open>The claims\<close>

text \<open>
  Claim C1: for every raw generator string the report returned by \<open>analyze_resume_ats\<close>
  is fully populated, an object with the four fields \<open>score\<close>, \<open>missing_keywords\<close>,
  \<open>suggestions\<close> and \<open>summary\<close>. The docstring of the function promises the same, and the
  code does not keep the promise: \<open>json.loads\<close> accepts any JSON document and its value is
  returned unchecked. When the generator answers \<open>null\<close> the function returns \<open>None\<close>, and
  when it answers \<open>{"score": 85}\<close> the function returns a dictionary with one key.
\<close>

theorem analyze_resume_ats_unpopulated:
  \<open>analyze_resume_ats settings (replying (Inr \<lparr>content = [TextBlock (ustr ''null'')]\<rparr>))
       resume_text job_description w = (Inr JNull, w)
   \<and> \<not> fully_populated JNull
   \<and> analyze_resume_ats settings (replying (Inr \<lparr>content = [TextBlock (ustr ''{"score": 85}'')]\<rparr>))
       resume_text job_description w = (Inr (JDict [(ustr ''score'', JInt 85)]), w)
   \<and> \<not> fully_populated (JDict [(ustr ''score'', JInt 85)])\<close>
  by (simp add: analyze_resume_ats_def replying_def fully_populated_def decoder_eval)

text \<open>
  What the \<open>except\<close> clause recovers: when \<open>json.loads\<close> raises \<open>JSONDecodeError\<close>, the
  result is the sentinel report, with the text as summary. Scenario B of the specification
  is an instance.
\<close>

lemma decode_error_gives_sentinel:
  assumes "client (scoring_request resume_text job_description) w = (Inr message, w')"
    and "content message = TextBlock s # blocks"
    and "json_loads env s = Inl JSONDecodeError"
  shows "analyze_resume_ats env client resume_text job_description w =
           (Inr (JDict
              [(ustr ''score'', JInt 0),
               (ustr ''missing_keywords'', JList []),
               (ustr ''suggestions'', JList [JStr (ustr ''Could not analyze - please try again'')]),
               (ustr ''summary'', JStr s)]), w')"
  using assms by (simp add: analyze_resume_ats_def)

lemma scenario_B:
  "analyze_resume_ats settings
     (replying (Inr \<lparr>content = [TextBlock (ustr ''Sorry, I cannot help.'')]\<rparr>))
     (ustr ''Python developer, 3 years'') (ustr ''Senior Python Engineer, AWS required'') () =
     (Inr (JDict
        [(ustr ''score'', JInt 0),
         (ustr ''missing_keywords'', JList []),
         (ustr ''suggestions'', JList [JStr (ustr ''Could not analyze - please try again'')]),
         (ustr ''summary'', JStr (ustr ''Sorry, I cannot help.''))]), ())"
  by (simp add: analyze_resume_ats_def replying_def decoder_eval)

text \<open>
  Claim C2: every text that is not parseable as JSON gives the sentinel report, with the
  text itself as summary. The comment in the code says the same ("If parsing fails, return
  a default structure"), and the code does not do it for every such text: \<open>except\<close> names
  \<open>json.JSONDecodeError\<close> only. A text of opening brackets, one more than the decoder may
  still nest, is truncated JSON (no interpreter settings \<open>env'\<close> make the decoder return a
  value for it), and on it \<open>analyze_resume_ats\<close> raises \<open>RecursionError\<close> instead of
  returning the sentinel.
\<close>

theorem unparseable_text_raises:
  "json_loads env' (replicate (Suc (recursion_limit env)) (ord CHR ''['')) \<noteq> Inr result
   \<and> analyze_resume_ats env
       (replying (Inr \<lparr>content = [TextBlock (replicate (Suc (recursion_limit env)) (ord CHR ''[''))]\<rparr>))
       resume_text job_description w = (Inl RecursionError, w)"
proof -
  have "json_loads env (replicate (Suc (recursion_limit env)) (ord CHR ''['') @ []) =
          Inl RecursionError"
    by (rule json_loads_deeper) simp
  then show ?thesis
    using json_loads_brackets [of env' "recursion_limit env" result]
    by (simp add: analyze_resume_ats_def replying_def)
qed

text \<open>
  Claim C3: the interpretation of the response never raises, whatever the text. The code
  recovers from \<open>JSONDecodeError\<close> only, so the other exceptions of \<open>json.loads\<close> leave
  \<open>analyze_resume_ats\<close>: \<open>RecursionError\<close> on every text that starts with more opening
  brackets than the decoder may still nest (1001 are enough under the default recursion
  limit of 1000), and \<open>ValueError\<close> on an integer of 4301 digits under the default digit
  limit of 4300.
\<close>

theorem interpretation_raises:
  "analyze_resume_ats env
     (replying (Inr \<lparr>content =
        [TextBlock (replicate (Suc (recursion_limit env)) (ord CHR ''['') @ rest)]\<rparr>))
     resume_text job_description w = (Inl RecursionError, w)
   \<and> analyze_resume_ats \<lparr>recursion_limit = depth, int_max_str_digits = 4300\<rparr>
       (replying (Inr \<lparr>content = [TextBlock (replicate 4301 (ord CHR ''1''))]\<rparr>))
       resume_text job_description w = (Inl ValueError, w)"
proof -
  have "json_loads env (replicate (Suc (recursion_limit env)) (ord CHR ''['') @ rest) =
          Inl RecursionError"
    by (rule json_loads_deeper) simp
  moreover have "json_loads \<lparr>recursion_limit = depth, int_max_str_digits = 4300\<rparr>
      (replicate (Suc 4300) (ord CHR ''1'')) = Inl ValueError"
    by (rule json_loads_long_integer) simp_all
  ultimately show ?thesis
    by (simp add: analyze_resume_ats_def replying_def)
qed

text \<open>
  Claim C4: when the text parses as a JSON object that has the four required keys, the
  function returns that object as parsed: every field is the parsed value, with no
  validation of type or range, no coercion and no clamping.
\<close>

theorem well_formed_response_passed_through:
  assumes "client (scoring_request resume_text job_description) w = (Inr message, w')"
    and "content message = TextBlock s # blocks"
    and "json_loads env s = Inr (JDict d)"
    and "fully_populated (JDict d)"
  shows "analyze_resume_ats env client resume_text job_description w = (Inr (JDict d), w')"
  using assms by (simp add: analyze_resume_ats_def)

text \<open>
  A score that is not a number and keywords that are not a sequence pass through.
\<close>

theorem well_formed_response_passed_through_witness:
  \<open>json_loads settings
      (ustr ''{"score": "high", "missing_keywords": 7, "suggestions": null, "summary": [150]}'') =
      Inr (JDict [(ustr ''score'', JStr (ustr ''high'')), (ustr ''missing_keywords'', JInt 7),
                  (ustr ''suggestions'', JNull), (ustr ''summary'', JList [JInt 150])])
   \<and> fully_populated
        (JDict [(ustr ''score'', JStr (ustr ''high'')), (ustr ''missing_keywords'', JInt 7),
                (ustr ''suggestions'', JNull), (ustr ''summary'', JList [JInt 150])])
   \<and> analyze_resume_ats settings
        (replying (Inr \<lparr>content = [TextBlock
           (ustr ''{"score": "high", "missing_keywords": 7, "suggestions": null, "summary": [150]}'')]\<rparr>))
        (ustr ''resume'') (ustr ''job'') () =
      (Inr (JDict [(ustr ''score'', JStr (ustr ''high'')), (ustr ''missing_keywords'', JInt 7),
                   (ustr ''suggestions'', JNull), (ustr ''summary'', JList [JInt 150])]), ())\<close>
proof -
  let ?s = \<open>ustr ''{"score": "high", "missing_keywords": 7, "suggestions": null, "summary": [150]}''\<close>
  let ?d = "[(ustr ''score'', JStr (ustr ''high'')), (ustr ''missing_keywords'', JInt 7),
             (ustr ''suggestions'', JNull), (ustr ''summary'', JList [JInt 150])]"
  have h: "json_loads settings ?s = Inr (JDict ?d)"
    by (simp add: decoder_eval)
  have f: "fully_populated (JDict ?d)"
    by (simp add: fully_populated_def ustr_def)
  from h f well_formed_response_passed_through
    [where client = "replying (Inr \<lparr>content = [TextBlock ?s]\<rparr>)"
       and message = "\<lparr>content = [TextBlock ?s]\<rparr>"
       and w = "()" and w' = "()" and blocks = "[]" and env = settings and s = ?s and d = ?d
       and resume_text = "ustr ''resume''" and job_description = "ustr ''job''"]
  show ?thesis
    by (simp add: replying_def)
qed

text \<open>
  Claim C5: when the call of the client raises, \<open>analyze_resume_ats\<close> raises the same
  exception. The failure is not caught, the client is not called a second time, and the
  result is not the sentinel report.
\<close>

theorem upstream_failure_propagates:
  assumes "client (scoring_request resume_text job_description) w = (Inl e, w')"
  shows "analyze_resume_ats env client resume_text job_description w = (Inl e, w')
       \<and> analyze_resume_ats env (recording client) resume_text job_description (w, []) =
           (Inl e, (w', [scoring_request resume_text job_description]))"
  using assms by (simp add: analyze_resume_ats_def recording_def)

theorem upstream_failure_propagates_witness:
  "analyze_resume_ats settings (replying (Inl RateLimitError)) (ustr ''resume'') (ustr ''job'') () =
     (Inl RateLimitError, ())
   \<and> analyze_resume_ats settings (recording (replying (Inl RateLimitError)))
       (ustr ''resume'') (ustr ''job'') ((), []) =
     (Inl RateLimitError, ((), [scoring_request (ustr ''resume'') (ustr ''job'')]))"
  using upstream_failure_propagates
    [where client = "replying (Inl RateLimitError)" and w = "()" and w' = "()"
       and e = RateLimitError and env = settings
       and resume_text = "ustr ''resume''" and job_description = "ustr ''job''"]
  by (simp add: replying_def)

text \<open>
  Claim C6: for every text that is valid JSON, \<open>analyze_resume_ats\<close> returns the parsed
  value. This fails on a valid document that the decoder cannot read within the limits of
  the interpreter. The list nested 1001 deep is valid JSON (a decoder with room for 1001
  levels returns it), and under the example settings \<open>analyze_resume_ats\<close> raises
  \<open>RecursionError\<close> on it.
\<close>

theorem valid_json_raises_counterexample:
  "json_loads \<lparr>recursion_limit = 1001, int_max_str_digits = 4300\<rparr>
     (replicate 1001 (ord CHR ''['') @ replicate 1001 (ord CHR '']'')) = Inr (nested_list 1000)
   \<and> analyze_resume_ats settings
       (replying (Inr \<lparr>content =
          [TextBlock (replicate 1001 (ord CHR ''['') @ replicate 1001 (ord CHR '']''))]\<rparr>))
       (ustr ''resume'') (ustr ''job'') () = (Inl RecursionError, ())"
proof -
  have "json_loads \<lparr>recursion_limit = 1001, int_max_str_digits = 4300\<rparr>
     (replicate (Suc 1000) (ord CHR ''['') @ replicate (Suc 1000) (ord CHR '']'')) =
     Inr (nested_list 1000)"
    by (rule json_loads_nested) simp
  moreover have "json_loads settings
     (replicate 1001 (ord CHR ''['') @ replicate 1001 (ord CHR '']'')) = Inl RecursionError"
    by (rule json_loads_deeper) simp
  ultimately show ?thesis
    by (simp add: analyze_resume_ats_def replying_def)
qed

text \<open>
  Claim C6 as amended: whenever \<open>json.loads\<close> returns a value for the text,
  \<open>analyze_resume_ats\<close> returns that value as it is. Nothing checks that the value is an
  object or which keys it has.
\<close>

theorem valid_json_returned_verbatim:
  assumes "client (scoring_request resume_text job_description) w = (Inr message, w')"
    and "content message = TextBlock s # blocks"
    and "json_loads env s = Inr result"
  shows "analyze_resume_ats env client resume_text job_description w = (Inr result, w')"
  using assms by (simp add: analyze_resume_ats_def)

theorem valid_json_returned_verbatim_witness:
  \<open>json_loads settings (ustr ''{"score": 72, "summary": "ok", "extra": [42, {}]}'') =
     Inr (JDict [(ustr ''score'', JInt 72), (ustr ''summary'', JStr (ustr ''ok'')),
                 (ustr ''extra'', JList [JInt 42, JDict [] ])])
   \<and> analyze_resume_ats settings
        (replying (Inr \<lparr>content = [TextBlock
           (ustr ''{"score": 72, "summary": "ok", "extra": [42, {}]}'')]\<rparr>))
        (ustr ''resume'') (ustr ''job'') () =
      (Inr (JDict [(ustr ''score'', JInt 72), (ustr ''summary'', JStr (ustr ''ok'')),
                   (ustr ''extra'', JList [JInt 42, JDict [] ])]), ())\<close>
proof -
  let ?s = \<open>ustr ''{"score": 72, "summary": "ok", "extra": [42, {}]}''\<close>
  let ?v = "JDict [(ustr ''score'', JInt 72), (ustr ''summary'', JStr (ustr ''ok'')),
                   (ustr ''extra'', JList [JInt 42, JDict [] ])]"
  have h: "json_loads settings ?s = Inr ?v"
    by (simp add: decoder_eval)
  from h valid_json_returned_verbatim
    [where client = "replying (Inr \<lparr>content = [TextBlock ?s]\<rparr>)"
       and message = "\<lparr>content = [TextBlock ?s]\<rparr>"
       and w = "()" and w' = "()" and blocks = "[]" and env = settings and s = ?s and result = ?v
       and resume_text = "ustr ''resume''" and job_description = "ustr ''job''"]
  show ?thesis
    by (simp add: replying_def)
qed

text \<open>
  Claim C7: the scoring prompt is a function of the resume and the job description alone.
  Two calls with the same two texts send the same prompt, whatever the interpreter settings,
  the client and its state are; the prompt sent is \<open>scoring_prompt\<close> of the two texts; and
  the only effect of \<open>analyze_resume_ats\<close> on the state is that of its one call of the
  client.
\<close>

theorem scoring_prompt_deterministic:
  "snd (snd (analyze_resume_ats env1 (recording client1) resume_text job_description (w1, []))) =
     snd (snd (analyze_resume_ats env2 (recording client2) resume_text job_description (w2, [])))
   \<and> map messages
        (snd (snd (analyze_resume_ats env1 (recording client1) resume_text job_description (w1, [])))) =
      [ [ [(ustr ''role'', ustr ''user''),
         (ustr ''content'', scoring_prompt resume_text job_description)] ] ]
   \<and> snd (analyze_resume_ats env1 client1 resume_text job_description w1) =
      snd (client1 (scoring_request resume_text job_description) w1)"
proof (intro conjI)
  show "snd (analyze_resume_ats env1 client1 resume_text job_description w1) =
          snd (client1 (scoring_request resume_text job_description) w1)"
    by (rule analyze_resume_ats_state)
qed (simp_all add: analyze_resume_ats_requests)

theorem scoring_prompt_deterministic_witness:
  "snd (snd (analyze_resume_ats settings
       (recording (replying (Inr \<lparr>content = [TextBlock (ustr ''null'')]\<rparr>)))
       (ustr ''Python developer, 3 years'') (ustr ''Senior Python Engineer, AWS required'')
       ((), []))) =
   snd (snd (analyze_resume_ats \<lparr>recursion_limit = 10, int_max_str_digits = 0\<rparr>
       (recording (replying (Inl APIConnectionError)))
       (ustr ''Python developer, 3 years'') (ustr ''Senior Python Engineer, AWS required'')
       (True, [])))"
  using scoring_prompt_deterministic
    [where ?env1.0 = settings and ?env2.0 = "\<lparr>recursion_limit = 10, int_max_str_digits = 0\<rparr>"
       and ?client1.0 = "replying (Inr \<lparr>content = [TextBlock (ustr ''null'')]\<rparr>)"
       and ?client2.0 = "replying (Inl APIConnectionError)"
       and ?w1.0 = "()" and ?w2.0 = True
       and resume_text = "ustr ''Python developer, 3 years''"
       and job_description = "ustr ''Senior Python Engineer, AWS required''"]
  by simp

text \<open>
  Claim C8: each of the two functions calls the client exactly once, with \<open>max_tokens\<close>
  1024 for scoring and 1500 for the cover letter, whatever the arguments are and whatever
  the client answers.
\<close>

theorem client_called_once_with_fixed_ceiling:
  "map max_tokens
     (snd (snd (analyze_resume_ats env (recording client) resume_text job_description (w, [])))) =
     [1024]
   \<and> map max_tokens
       (snd (snd (generate_cover_letter (recording client) resume_text job_description company_name
                    tone_arg (w, [])))) =
     [1500]"
  by (simp add: analyze_resume_ats_requests generate_cover_letter_requests)

theorem client_called_once_with_fixed_ceiling_witness:
  "map max_tokens
     (snd (snd (analyze_resume_ats settings (recording (replying (Inl InternalServerError)))
        (ustr ''resume'') (ustr ''job'') ((), [])))) = [1024]
   \<and> map max_tokens
       (snd (snd (generate_cover_letter
          (recording (replying (Inr \<lparr>content = [TextBlock (ustr ''Dear team'')]\<rparr>)))
          (ustr ''resume'') (ustr ''job'') (ustr ''Acme Corp'') (Some (ustr ''max_tokens=9999''))
          ((), [])))) = [1500]"
proof -
  have "map max_tokens
     (snd (snd (analyze_resume_ats settings (recording (replying (Inl InternalServerError)))
        (ustr ''resume'') (ustr ''job'') ((), [])))) = [1024]"
    using client_called_once_with_fixed_ceiling
      [where env = settings and client = "replying (Inl InternalServerError)" and w = "()"
         and resume_text = "ustr ''resume''" and job_description = "ustr ''job''"]
    by simp
  moreover have "map max_tokens
       (snd (snd (generate_cover_letter
          (recording (replying (Inr \<lparr>content = [TextBlock (ustr ''Dear team'')]\<rparr>)))
          (ustr ''resume'') (ustr ''job'') (ustr ''Acme Corp'') (Some (ustr ''max_tokens=9999''))
          ((), [])))) = [1500]"
    using client_called_once_with_fixed_ceiling
      [where client = "replying (Inr \<lparr>content = [TextBlock (ustr ''Dear team'')]\<rparr>)" and w = "()"
         and resume_text = "ustr ''resume''" and job_description = "ustr ''job''"
         and company_name = "ustr ''Acme Corp''" and tone_arg = "Some (ustr ''max_tokens=9999'')"]
    by simp
  ultimately show ?thesis by simp
qed

text \<open>
  Claim C9: the prompt of \<open>generate_cover_letter\<close> contains the company name and the
  tone as they were given, the tone being \<open>professional\<close> when the caller gives none; any
  string is taken as tone. The prompt sent to the client is that prompt, and the text of
  the client's answer is returned unchanged.
\<close>

theorem cover_letter_prompt_and_passthrough:
  assumes "tone = (case tone_arg of None \<Rightarrow> ustr ''professional'' | Some given \<Rightarrow> given)"
    and "client (letter_request resume_text job_description company_name tone) w =
           (Inr message, w')"
    and "content message = TextBlock letter # blocks"
  shows "sublist company_name (cover_letter_prompt resume_text job_description company_name tone)
       \<and> sublist tone (cover_letter_prompt resume_text job_description company_name tone)
       \<and> map messages
           (snd (snd (generate_cover_letter (recording client) resume_text job_description
                        company_name tone_arg (w, [])))) =
         [ [ [(ustr ''role'', ustr ''user''),
            (ustr ''content'',
             cover_letter_prompt resume_text job_description company_name tone)] ] ]
       \<and> generate_cover_letter client resume_text job_description company_name tone_arg w =
           (Inr letter, w')"
proof (intro conjI)
  show "generate_cover_letter client resume_text job_description company_name tone_arg w =
          (Inr letter, w')"
    using assms by (simp add: generate_cover_letter_def)
  show "map messages
          (snd (snd (generate_cover_letter (recording client) resume_text job_description
                       company_name tone_arg (w, [])))) =
        [ [ [(ustr ''role'', ustr ''user''),
           (ustr ''content'',
            cover_letter_prompt resume_text job_description company_name tone)] ] ]"
    using assms(1) by (simp add: generate_cover_letter_requests)
qed (rule cover_letter_prompt_company cover_letter_prompt_tone)+

text \<open>
  Scenario C of the specification (company "Acme Corp", tone "enthusiastic"), and the
  default tone.
\<close>

theorem cover_letter_prompt_and_passthrough_witness:
  "sublist (ustr ''Acme Corp'')
     (cover_letter_prompt (ustr ''resume'') (ustr ''job'') (ustr ''Acme Corp'') (ustr ''enthusiastic''))
   \<and> sublist (ustr ''enthusiastic'')
     (cover_letter_prompt (ustr ''resume'') (ustr ''job'') (ustr ''Acme Corp'') (ustr ''enthusiastic''))
   \<and> generate_cover_letter
       (replying (Inr \<lparr>content = [TextBlock (ustr ''Dear Acme Corp team, [Your Name]'')]\<rparr>))
       (ustr ''resume'') (ustr ''job'') (ustr ''Acme Corp'') (Some (ustr ''enthusiastic'')) () =
     (Inr (ustr ''Dear Acme Corp team, [Your Name]''), ())
   \<and> sublist (ustr ''professional'')
     (cover_letter_prompt (ustr ''resume'') (ustr ''job'') (ustr ''Acme Corp'') (ustr ''professional''))
   \<and> map messages
       (snd (snd (generate_cover_letter (recording (replying (Inr \<lparr>content = [TextBlock [] ]\<rparr>)))
          (ustr ''resume'') (ustr ''job'') (ustr ''Acme Corp'') None ((), [])))) =
     [ [ [(ustr ''role'', ustr ''user''),
        (ustr ''content'',
         cover_letter_prompt (ustr ''resume'') (ustr ''job'') (ustr ''Acme Corp'')
           (ustr ''professional''))] ] ]"
proof -
  note a = cover_letter_prompt_and_passthrough
    [where tone_arg = "Some (ustr ''enthusiastic'')" and tone = "ustr ''enthusiastic''"
       and client = "replying (Inr \<lparr>content = [TextBlock (ustr ''Dear Acme Corp team, [Your Name]'')]\<rparr>)"
       and message = "\<lparr>content = [TextBlock (ustr ''Dear Acme Corp team, [Your Name]'')]\<rparr>"
       and letter = "ustr ''Dear Acme Corp team, [Your Name]''" and blocks = "[]"
       and w = "()" and w' = "()"
       and resume_text = "ustr ''resume''" and job_description = "ustr ''job''"
       and company_name = "ustr ''Acme Corp''"]
  note b = cover_letter_prompt_and_passthrough
    [where tone_arg = None and tone = "ustr ''professional''"
       and client = "replying (Inr \<lparr>content = [TextBlock [] ]\<rparr>)"
       and message = "\<lparr>content = [TextBlock [] ]\<rparr>"
       and letter = "[]" and blocks = "[]"
       and w = "()" and w' = "()"
       and resume_text = "ustr ''resume''" and job_description = "ustr ''job''"
       and company_name = "ustr ''Acme Corp''"]
  from a b show ?thesis
    by (simp add: replying_def)
qed

text \<open>
  Claim C10: both functions send one request of the same shape: the model
  \<open>claude-sonnet-4-20250514\<close> and a single message whose role is \<open>user\<close> and whose
  content is the prompt. No argument of the caller changes the model or the shape.
\<close>

theorem outbound_request_shape:
  "snd (snd (analyze_resume_ats env (recording client) resume_text job_description (w, []))) =
     [\<lparr>model = ustr ''claude-sonnet-4-20250514'',
       max_tokens = 1024,
       messages = [ [(ustr ''role'', ustr ''user''),
                    (ustr ''content'', scoring_prompt resume_text job_description)] ]\<rparr>]
   \<and> snd (snd (generate_cover_letter (recording client) resume_text job_description company_name
                  tone_arg (w, []))) =
     [\<lparr>model = ustr ''claude-sonnet-4-20250514'',
       max_tokens = 1500,
       messages = [ [(ustr ''role'', ustr ''user''),
                    (ustr ''content'',
                     cover_letter_prompt resume_text job_description company_name
                       (case tone_arg of None \<Rightarrow> ustr ''professional'' | Some tone \<Rightarrow> tone))] ]\<rparr>]"
  by (simp add: analyze_resume_ats_requests generate_cover_letter_requests)

theorem outbound_request_shape_witness:
  "map model
     (snd (snd (analyze_resume_ats settings (recording (replying (Inl AuthenticationError)))
        (ustr ''model: gpt'') (ustr ''role: system'') ((), [])))) =
     [ustr ''claude-sonnet-4-20250514'']
   \<and> map (map (map fst) \<circ> messages)
       (snd (snd (generate_cover_letter (recording (replying (Inr \<lparr>content = []\<rparr>)))
          (ustr ''model: gpt'') (ustr ''role: system'') (ustr ''Acme Corp'') None ((), [])))) =
     [ [ [ustr ''role'', ustr ''content''] ] ]"
proof -
  note a = outbound_request_shape
    [where env = settings and client = "replying (Inl AuthenticationError)" and w = "()"
       and resume_text = "ustr ''model: gpt''" and job_description = "ustr ''role: system''"]
  note b = outbound_request_shape
    [where client = "replying (Inr \<lparr>content = []\<rparr>)" and w = "()"
       and resume_text = "ustr ''model: gpt''" and job_description = "ustr ''role: system''"
       and company_name = "ustr ''Acme Corp''" and tone_arg = None]
  from a b show ?thesis
    by simp
qed

end
